theory Spec2Isabelle
  imports Complex_Main
begin

section \<open>Arrays, errors and the interpreter state\<close>

text \<open>
  The script \<^verbatim>\<open>plot_regions_covariance.py\<close> works on two-dimensional numpy arrays.
  An array of shape \<open>(n, m)\<close> is the list of its \<open>n\<close> rows, each of length \<open>m\<close>.
  Entries are modelled as real numbers: rounding of floating-point arithmetic is not
  part of the model.
\<close>

type_synonym matrix = "real list list"

definition ncols :: "'a list list \<Rightarrow> nat" where
  "ncols M = (case M of [] \<Rightarrow> 0 | r # _ \<Rightarrow> length r)"

definition square :: "matrix \<Rightarrow> bool" where
  "square M = (\<forall>r \<in> set M. length r = length M)"

text \<open>The exceptions that the modelled statements can raise.\<close>

datatype error = IndexError | ValueError

text \<open>
  A colormap as \<^verbatim>\<open>LinearSegmentedColormap.from_list(name, colors)\<close> builds it: its
  name and the list of RGB anchor colours.
\<close>

record colormap =
  cmap_name :: string
  cmap_colors :: "(real \<times> real \<times> real) list"

text \<open>
  One figure as the script draws it: the array given to \<^verbatim>\<open>imshow\<close>, the colour range
  \<^verbatim>\<open>vmin\<close>, \<^verbatim>\<open>vmax\<close>, the colormap, whether a colorbar was added
  and the title. The two cross-hair lines (\<^verbatim>\<open>hlines\<close>, \<^verbatim>\<open>vlines\<close>)
  only draw on the axes and are not recorded.
\<close>

record figure =
  image :: matrix
  vmin :: real
  vmax :: real
  cmap :: colormap
  colorbar :: bool
  fig_title :: string

text \<open>
  Arrays are objects that are shared by reference and mutated in place, so they live in
  an explicit store. \<open>next_ref\<close> is the allocation counter: a new array gets the
  address \<open>next_ref\<close>. The colormap registry of the plotting library and the list of
  open figures are process-wide and are part of the state too.
\<close>

type_synonym ref = nat

record state =
  heap :: "ref \<Rightarrow> matrix"
  next_ref :: ref
  registry :: "string \<rightharpoonup> colormap"
  figures :: "figure list"
  shown :: bool

section \<open>Module level: the colormap registration\<close>

text \<open>
  \<^verbatim>\<open>_bwr_data = ((0.0, 0.0, 1.0), (1.0, 1.0, 1.0), (1.0, 0.0, 0.0))\<close>
\<close>

definition bwr_data :: "(real \<times> real \<times> real) list" where
  "bwr_data = [(0, 0, 1), (1, 1, 1), (1, 0, 0)]"

definition from_list :: "string \<Rightarrow> (real \<times> real \<times> real) list \<Rightarrow> colormap" where
  "from_list name colors = \<lparr>cmap_name = name, cmap_colors = colors\<rparr>"

text \<open>
  \<^verbatim>\<open>register_cmap(cmap=c)\<close> without a \<^verbatim>\<open>name\<close> argument stores the colormap under
  its own name, replacing what was registered there.
\<close>

definition register_cmap :: "colormap \<Rightarrow> state \<Rightarrow> state" where
  "register_cmap c s = s\<lparr>registry := (registry s)(cmap_name c \<mapsto> c)\<rparr>"

text \<open>
  The statements executed when the module is imported (lines 29 to 32); the
  \<^verbatim>\<open>def\<close> of \<^verbatim>\<open>plot_matrices\<close> only binds a name.
\<close>

definition module_import :: "state \<Rightarrow> state" where
  "module_import s = register_cmap (from_list ''bwr'' bwr_data) s"

definition get_cmap :: "string \<Rightarrow> state \<Rightarrow> error + colormap" where
  "get_cmap name s = (case registry s name of None \<Rightarrow> Inl ValueError | Some c \<Rightarrow> Inr c)"

section \<open>The visualizer\<close>

text \<open>
  \<^verbatim>\<open>prec[range(size), range(size)] = 0\<close> writes the entries \<open>(i, i)\<close> for
  \<open>i < size\<close>.
\<close>

fun zero_diag_from :: "nat \<Rightarrow> matrix \<Rightarrow> matrix" where
  "zero_diag_from i [] = []"
| "zero_diag_from i (r # rs) = r[i := 0] # zero_diag_from (Suc i) rs"

definition zero_diag :: "matrix \<Rightarrow> matrix" where
  "zero_diag M = zero_diag_from 0 M"

text \<open>
  \<^verbatim>\<open>a.min()\<close> and \<^verbatim>\<open>a.max()\<close> over all entries; numpy raises ValueError
  on an array without entries.
\<close>

definition amin :: "matrix \<Rightarrow> error + real" where
  "amin M = (case concat M of [] \<Rightarrow> Inl ValueError | x # xs \<Rightarrow> Inr (fold min xs x))"

definition amax :: "matrix \<Rightarrow> error + real" where
  "amax M = (case concat M of [] \<Rightarrow> Inl ValueError | x # xs \<Rightarrow> Inr (fold max xs x))"

definition span_of :: "matrix \<Rightarrow> error + real" where
  "span_of M =
     (case amin M of Inl e \<Rightarrow> Inl e
      | Inr lo \<Rightarrow> (case amax M of Inl e \<Rightarrow> Inl e
         | Inr hi \<Rightarrow> Inr (max \<bar>lo\<bar> \<bar>hi\<bar>)))"

text \<open>Decimal digits, as \<^verbatim>\<open>{0:d}\<close> prints an integer.\<close>

definition digit :: "nat \<Rightarrow> char" where
  "digit d = ''0123456789'' ! d"

fun str_nat :: "nat \<Rightarrow> string" where
  "str_nat n = (if n < 10 then [digit n] else str_nat (n div 10) @ [digit (n mod 10)])"

declare str_nat.simps [simp del]

definition format_d :: "int \<Rightarrow> string" where
  "format_d i = (if i < 0 then ''-'' @ str_nat (nat (- i)) else str_nat (nat i))"

text \<open>
  \<^verbatim>\<open>plot_matrices(cov, prec, title, subject_n)\<close>. The arguments \<open>cov\<close> and
  \<open>prec\<close> are references into the store. The result is the exception raised, if any,
  and the state that the call leaves behind in either case.
  The index arrays are checked before anything is written: with more rows than columns
  the assignment raises IndexError and the array is untouched.
\<close>

definition plot_matrices ::
  "ref \<Rightarrow> ref \<Rightarrow> string \<Rightarrow> int \<Rightarrow> state \<Rightarrow> (error + unit) \<times> state" where
  "plot_matrices cov prec title subject_n s =
     (let sz = length (heap s prec) in
      if ncols (heap s prec) < sz then (Inl IndexError, s)
      else
        let s1 = s\<lparr>heap := (heap s)(prec := zero_diag (heap s prec))\<rparr> in
        case span_of (heap s1 prec) of
          Inl e \<Rightarrow> (Inl e, s1)
        | Inr spn \<Rightarrow>
            let title' = format_d subject_n @ '' '' @ title in
            case get_cmap ''bwr'' s1 of
              Inl e \<Rightarrow> (Inl e, s1)
            | Inr c \<Rightarrow>
                let fig1 = \<lparr>image = heap s1 cov, vmin = - 1, vmax = 1, cmap = c,
                            colorbar = True, fig_title = title' @ '' / covariance''\<rparr>;
                    fig2 = \<lparr>image = heap s1 prec, vmin = - spn, vmax = spn, cmap = c,
                            colorbar = True, fig_title = title' @ '' / precision''\<rparr>
                in (Inr (), s1\<lparr>figures := figures s1 @ [fig1, fig2]\<rparr>))"

text \<open>
  \<^verbatim>\<open>{0:.3f}\<close> prints a finite float with three digits after the point, rounding
  the exact value to the nearest thousandth, ties to the even one.
\<close>

definition round_half_even :: "real \<Rightarrow> int" where
  "round_half_even x =
     (let f = \<lfloor>x\<rfloor>; d = x - of_int f
      in if d < 1 / 2 then f else if 1 / 2 < d then f + 1
         else if even f then f else f + 1)"

definition format_3f :: "real \<Rightarrow> string" where
  "format_3f x =
     (let n = nat (round_half_even (\<bar>x\<bar> * 1000))
      in (if x < 0 then ''-'' else []) @ str_nat (n div 1000) @ ''.''
         @ [digit (n mod 1000 div 100), digit (n mod 100 div 10), digit (n mod 10)])"

section \<open>The main flow after the fit\<close>

text \<open>
  The fitted \<^verbatim>\<open>GraphLassoCV\<close> object: its attributes \<^verbatim>\<open>covariance_\<close> and
  \<^verbatim>\<open>precision_\<close> are arrays in the store, \<^verbatim>\<open>alpha_\<close> is a float
  (the field names carry the prefix \<open>est_\<close> in place of the trailing underscore).
\<close>

record estimator =
  est_covariance :: ref
  est_precision :: ref
  est_alpha :: real

definition negate :: "matrix \<Rightarrow> matrix" where
  "negate M = map (map uminus) M"

text \<open>Unary minus on an array allocates a new array and leaves its operand alone.\<close>

definition neg_array :: "ref \<Rightarrow> state \<Rightarrow> ref \<times> state" where
  "neg_array a s =
     (next_ref s,
      s\<lparr>heap := (heap s)(next_ref s := negate (heap s a)), next_ref := Suc (next_ref s)\<rparr>)"

text \<open>\<^verbatim>\<open>subject_n = 1\<close> (line 70).\<close>

definition subject_n :: int where
  "subject_n = 1"

text \<open>
  Lines 108 to 111: the call of \<^verbatim>\<open>plot_matrices\<close> on the covariance, the negated
  precision and the title, then \<^verbatim>\<open>pl.show()\<close>.
\<close>

definition main_display :: "estimator \<Rightarrow> state \<Rightarrow> (error + unit) \<times> state" where
  "main_display est s =
     (case neg_array (est_precision est) s of
        (p, s1) \<Rightarrow>
          (case plot_matrices (est_covariance est) p
                  (''Graph Lasso CV ('' @ format_3f (est_alpha est) @ '')'') subject_n s1 of
             (Inl e, s2) \<Rightarrow> (Inl e, s2)
           | (Inr u, s2) \<Rightarrow> (Inr (), s2\<lparr>shown := True\<rparr>)))"




section \<open>The confound estimator\<close>

text \<open>
  A text file as \<^verbatim>\<open>np.loadtxt\<close> sees it: its lines, each split at whitespace into
  fields; a field is a number or some other word.
\<close>

datatype field = Num real | Word string

type_synonym text_file = "field list list"

text \<open>What \<^verbatim>\<open>np.loadtxt\<close> returns: an array of dimension 0, 1 or 2.\<close>

datatype ndarray = Array0 real | Array1 "real list" | Array2 matrix

fun parse_line :: "field list \<Rightarrow> error + real list" where
  "parse_line [] = Inr []"
| "parse_line (Num x # fs) =
     (case parse_line fs of Inl e \<Rightarrow> Inl e | Inr xs \<Rightarrow> Inr (x # xs))"
| "parse_line (Word w # fs) = Inl ValueError"

text \<open>
  Blank lines are skipped; a field that is not a number, or a line whose number of
  fields differs from that of the first data line, raises ValueError.
\<close>

fun parse_lines :: "field list list \<Rightarrow> error + matrix" where
  "parse_lines [] = Inr []"
| "parse_lines (l # ls) =
     (if l = [] then parse_lines ls
      else case parse_line l of
        Inl e \<Rightarrow> Inl e
      | Inr row \<Rightarrow>
          (case parse_lines ls of
             Inl e \<Rightarrow> Inl e
           | Inr rows \<Rightarrow>
               if rows \<noteq> [] \<and> length (hd rows) \<noteq> length row then Inl ValueError
               else Inr (row # rows)))"

text \<open>
  With the default \<^verbatim>\<open>ndmin=0\<close> the result is squeezed: axes of length one are
  dropped. A file without data gives an empty one-dimensional array.
\<close>

definition squeeze :: "matrix \<Rightarrow> ndarray" where
  "squeeze rows =
     (case rows of
        [] \<Rightarrow> Array1 []
      | [row] \<Rightarrow> (case row of [x] \<Rightarrow> Array0 x | _ \<Rightarrow> Array1 row)
      | _ \<Rightarrow> if list_all (\<lambda>row. length row = 1) rows then Array1 (map hd rows)
             else Array2 rows)"

definition loadtxt :: "text_file \<Rightarrow> nat \<Rightarrow> error + ndarray" where
  "loadtxt file skiprows =
     (case parse_lines (drop skiprows file) of
        Inl e \<Rightarrow> Inl e
      | Inr rows \<Rightarrow> Inr (squeeze rows))"

text \<open>
  \<^verbatim>\<open>np.hstack((a, b))\<close> for a two-dimensional \<open>a\<close>: concatenation along the second
  axis; \<open>b\<close> must be two-dimensional too and have as many rows, otherwise ValueError.
\<close>

definition hstack :: "matrix \<Rightarrow> ndarray \<Rightarrow> error + matrix" where
  "hstack a b =
     (case b of
        Array2 m \<Rightarrow> if length a = length m then Inr (map2 (@) a m) else Inl ValueError
      | _ \<Rightarrow> Inl ValueError)"

text \<open>
  Lines 86 to 88. \<^verbatim>\<open>nisl.signals.high_variance_confounds\<close> is not part of the script
  and is a parameter here: the function from the voxel-time array (one row per time
  point) to the array of components. By the spec a confound matrix has shape
  \<open>(T, number_of_confounds)\<close>: one row per time point.
\<close>

definition confounds_step ::
  "(matrix \<Rightarrow> matrix) \<Rightarrow> matrix \<Rightarrow> text_file \<Rightarrow> error + matrix" where
  "confounds_step high_variance_confounds fmri_masked confound_file =
     (let hv_confounds = high_variance_confounds fmri_masked in
      case loadtxt confound_file 1 of
        Inl e \<Rightarrow> Inl e
      | Inr mvt_confounds \<Rightarrow> hstack hv_confounds mvt_confounds)"

section \<open>The signal cleaner\<close>

text \<open>
  Lines 93 to 97: the arguments of the call of \<^verbatim>\<open>nisl.signals.clean\<close>.
  \<^verbatim>\<open>None\<close> is the absent cutoff.
\<close>

record clean_call =
  signals :: matrix
  low_pass :: "real option"
  detrend :: bool
  standardize :: bool
  clean_confounds :: "matrix option"
  t_r :: real
  high_pass :: "real option"

definition main_clean_call :: "matrix \<Rightarrow> matrix \<Rightarrow> clean_call" where
  "main_clean_call fmri_masked confounds_matrix =
     \<lparr>signals = fmri_masked, low_pass = None, detrend = True, standardize = True,
      clean_confounds = Some confounds_matrix, t_r = 5 / 2, high_pass = Some (1 / 100)\<rparr>"

text \<open>
  Modelled from the spec: \<^verbatim>\<open>nisl.signals.clean\<close> is missing from the sources. The
  spec fixes the order of its operations, detrend, confound regression, temporal
  filtering, standardization, each enabled by its parameter, and says that the cleaned
  matrix has the shape of the input. The four numerical operations themselves are
  opaque collaborators and are parameters of the model. The model returns the cleaned
  matrix together with the list of the operations it applied, in order.
\<close>

datatype stage = Detrend | ConfoundRegression | TemporalFiltering | Standardization

record clean_ops =
  detrend_op :: "matrix \<Rightarrow> matrix"
  regress_op :: "matrix \<Rightarrow> matrix \<Rightarrow> matrix"
  filter_op :: "real option \<Rightarrow> real option \<Rightarrow> real \<Rightarrow> matrix \<Rightarrow> matrix"
  standardize_op :: "matrix \<Rightarrow> matrix"

definition apply_stage ::
  "bool \<Rightarrow> stage \<Rightarrow> (matrix \<Rightarrow> matrix) \<Rightarrow> matrix \<times> stage list \<Rightarrow> matrix \<times> stage list" where
  "apply_stage enabled name f st =
     (if enabled then (f (fst st), snd st @ [name]) else st)"

definition clean :: "clean_ops \<Rightarrow> clean_call \<Rightarrow> matrix \<times> stage list" where
  "clean ops c =
     (let st1 = apply_stage (detrend c) Detrend (detrend_op ops) (signals c, []);
          st2 = (case clean_confounds c of
                   None \<Rightarrow> st1
                 | Some cf \<Rightarrow> apply_stage True ConfoundRegression (regress_op ops cf) st1);
          st3 = apply_stage (low_pass c \<noteq> None \<or> high_pass c \<noteq> None) TemporalFiltering
                  (filter_op ops (low_pass c) (high_pass c) (t_r c)) st2
      in apply_stage (standardize c) Standardization (standardize_op ops) st3)"

definition same_shape :: "matrix \<Rightarrow> matrix \<Rightarrow> bool" where
  "same_shape A B = (map length A = map length B)"

section \<open>Region aggregation\<close>

text \<open>
  Line 102, \<^verbatim>\<open>region_ts /= region_ts.std(axis=0)\<close>, divides by a value that may be zero,
  and numpy then stores \<open>nan\<close> or \<open>inf\<close> and goes on (it warns, it does not raise). The
  values of this step are therefore reals extended by the three special values of the
  float type. Rounding, overflow and the sign of zero are not modelled.
\<close>

datatype npfloat = Finite real | PosInf | NegInf | NaN

type_synonym npmatrix = "npfloat list list"

fun np_neg :: "npfloat \<Rightarrow> npfloat" where
  "np_neg (Finite a) = Finite (- a)"
| "np_neg PosInf = NegInf"
| "np_neg NegInf = PosInf"
| "np_neg NaN = NaN"

fun np_abs :: "npfloat \<Rightarrow> npfloat" where
  "np_abs (Finite a) = Finite \<bar>a\<bar>"
| "np_abs PosInf = PosInf"
| "np_abs NegInf = PosInf"
| "np_abs NaN = NaN"

fun np_add :: "npfloat \<Rightarrow> npfloat \<Rightarrow> npfloat" where
  "np_add (Finite a) (Finite b) = Finite (a + b)"
| "np_add NaN y = NaN"
| "np_add x NaN = NaN"
| "np_add PosInf NegInf = NaN"
| "np_add NegInf PosInf = NaN"
| "np_add PosInf y = PosInf"
| "np_add x PosInf = PosInf"
| "np_add NegInf y = NegInf"
| "np_add x NegInf = NegInf"

definition np_sub :: "npfloat \<Rightarrow> npfloat \<Rightarrow> npfloat" where
  "np_sub x y = np_add x (np_neg y)"

fun np_mul :: "npfloat \<Rightarrow> npfloat \<Rightarrow> npfloat" where
  "np_mul (Finite a) (Finite b) = Finite (a * b)"
| "np_mul NaN y = NaN"
| "np_mul x NaN = NaN"
| "np_mul (Finite a) y = (if a = 0 then NaN else if 0 < a then y else np_neg y)"
| "np_mul x (Finite b) = (if b = 0 then NaN else if 0 < b then x else np_neg x)"
| "np_mul PosInf y = y"
| "np_mul NegInf y = np_neg y"

text \<open>Float division: a zero divisor gives \<open>nan\<close> for \<open>0 / 0\<close> and an infinity otherwise.\<close>

fun np_div :: "npfloat \<Rightarrow> npfloat \<Rightarrow> npfloat" where
  "np_div (Finite a) (Finite b) =
     (if b \<noteq> 0 then Finite (a / b)
      else if a = 0 then NaN else if 0 < a then PosInf else NegInf)"
| "np_div NaN y = NaN"
| "np_div x NaN = NaN"
| "np_div (Finite a) y = Finite 0"
| "np_div x (Finite b) = (if 0 \<le> b then x else np_neg x)"
| "np_div x y = NaN"

fun np_sqrt :: "npfloat \<Rightarrow> npfloat" where
  "np_sqrt (Finite a) = (if a < 0 then NaN else Finite (sqrt a))"
| "np_sqrt PosInf = PosInf"
| "np_sqrt NegInf = NaN"
| "np_sqrt NaN = NaN"


text \<open>
  \<^verbatim>\<open>mean\<close> and \<^verbatim>\<open>std\<close> of one column, as numpy computes them:
  \<^verbatim>\<open>std = sqrt(mean(abs(x - x.mean())**2))\<close>. Over no entries at all the mean is
  \<open>0 / 0\<close>.
\<close>

definition np_sum :: "npfloat list \<Rightarrow> npfloat" where
  "np_sum xs = foldl np_add (Finite 0) xs"

definition np_mean :: "npfloat list \<Rightarrow> npfloat" where
  "np_mean xs = np_div (np_sum xs) (Finite (real (length xs)))"

definition np_std :: "npfloat list \<Rightarrow> npfloat" where
  "np_std xs =
     np_sqrt (np_mean (map (\<lambda>x. np_mul (np_abs (np_sub x (np_mean xs)))
                                     (np_abs (np_sub x (np_mean xs)))) xs))"

text \<open>
  Column \<open>c\<close> of an array given by its rows; \<^verbatim>\<open>std(axis=0)\<close> is the vector of the
  columns' standard deviations, and the in-place division divides every row by it,
  entry by entry.
\<close>

definition column :: "nat \<Rightarrow> 'a list list \<Rightarrow> 'a list" where
  "column c M = map (\<lambda>row. row ! c) M"

definition std_axis0 :: "npmatrix \<Rightarrow> npfloat list" where
  "std_axis0 M = map (\<lambda>c. np_std (column c M)) [0..<ncols M]"

definition normalize_regions :: "npmatrix \<Rightarrow> npmatrix" where
  "normalize_regions region_ts =
     map (\<lambda>row. map2 np_div row (std_axis0 region_ts)) region_ts"









section \<open>Concrete inputs used to exercise the theorems\<close>

definition demo_state :: state where
  "demo_state = module_import
     \<lparr>heap = (\<lambda>r. [])(0 := [[2, 1], [1, 2]], 1 := [[3, - 1], [- 1, 4]]),
      next_ref = 2, registry = Map.empty, figures = [], shown = False\<rparr>"

definition demo_estimator :: estimator where
  "demo_estimator = \<lparr>est_covariance = 0, est_precision = 1, est_alpha = 1 / 16\<rparr>"





definition demo_file_one_column :: text_file where
  "demo_file_one_column = [[Word ''x''], [Num 5], [Num 6]]"

definition demo_file :: text_file where
  "demo_file = [[Word ''x'', Word ''y''], [Num 5, Num 6], [Num 7, Num 8]]"

definition first_voxel :: "matrix \<Rightarrow> matrix" where
  "first_voxel X = map (take 1) X"

definition demo_ops :: clean_ops where
  "demo_ops = \<lparr>detrend_op = map (map (\<lambda>x. x - 1)),
               regress_op = (\<lambda>cf. map (map (\<lambda>x. 2 * x))),
               filter_op = (\<lambda>lo hi tr. map (map (\<lambda>x. x + tr))),
               standardize_op = map (map (\<lambda>x. x / 2))\<rparr>"


section \<open>Properties of the module-level registration\<close>

text \<open>
  C9: importing the script registers, in the process-wide colormap registry, a colormap
  named "bwr" with the anchor colours blue, white, red; this is all the import does to
  the state (no figure, no array is touched) and it happens without any function of
  the script being called, so that a lookup of "bwr" succeeds afterwards.
\<close>

theorem module_import_registers_bwr:
  "registry (module_import s) ''bwr''
     = Some \<lparr>cmap_name = ''bwr'', cmap_colors = [(0, 0, 1), (1, 1, 1), (1, 0, 0)]\<rparr>
   \<and> get_cmap ''bwr'' (module_import s)
     = Inr \<lparr>cmap_name = ''bwr'', cmap_colors = [(0, 0, 1), (1, 1, 1), (1, 0, 0)]\<rparr>
   \<and> module_import s = s\<lparr>registry := (registry s)(''bwr'' \<mapsto> from_list ''bwr'' bwr_data)\<rparr>"
  by (simp add: module_import_def register_cmap_def from_list_def bwr_data_def get_cmap_def)

section \<open>Properties of the visualizer\<close>

lemma zero_diag_from_length [simp]: "length (zero_diag_from i M) = length M"
  by (induction M arbitrary: i) auto

lemma zero_diag_from_nth:
  "j < length M \<Longrightarrow> zero_diag_from i M ! j = (M ! j)[i + j := 0]"
proof (induction M arbitrary: i j)
  case Nil
  then show ?case by simp
next
  case (Cons r rs)
  then show ?case by (cases j) auto
qed

lemma zero_diag_length [simp]: "length (zero_diag M) = length M"
  by (simp add: zero_diag_def)

lemma zero_diag_row: "i < length M \<Longrightarrow> zero_diag M ! i = (M ! i)[i := 0]"
  by (simp add: zero_diag_def zero_diag_from_nth)

lemma zero_diag_entry:
  "i < length M \<Longrightarrow> j < length (M ! i) \<Longrightarrow>
     zero_diag M ! i ! j = (if i = j then 0 else M ! i ! j)"
  by (auto simp add: zero_diag_row)

lemma zero_diag_nonempty:
  "M \<noteq> [] \<Longrightarrow> length M \<le> ncols M \<Longrightarrow> concat (zero_diag M) \<noteq> []"
  by (cases M) (auto simp: zero_diag_def ncols_def)

lemma span_of_defined:
  assumes "concat M \<noteq> []"
  shows "span_of M = Inr (max \<bar>Min (set (concat M))\<bar> \<bar>Max (set (concat M))\<bar>)"
proof (cases "concat M")
  case Nil
  with assms show ?thesis by blast
next
  case (Cons x xs)
  have "Min (set (concat M)) = fold min xs x" "Max (set (concat M)) = fold max xs x"
    unfolding Cons by (rule Min.set_eq_fold, rule Max.set_eq_fold)
  then show ?thesis by (simp add: span_of_def amin_def amax_def Cons)
qed

lemma span_of_bounds:
  assumes "span_of M = Inr spn" and "e \<in> set (concat M)"
  shows "- spn \<le> e \<and> e \<le> spn"
proof -
  from assms(2) have ne: "concat M \<noteq> []" by (cases "concat M") simp_all
  have lo: "Min (set (concat M)) \<le> e" and hi: "e \<le> Max (set (concat M))"
    using assms(2) by simp_all
  from span_of_defined [OF ne] assms(1)
  have "spn = max \<bar>Min (set (concat M))\<bar> \<bar>Max (set (concat M))\<bar>" by simp
  with lo hi show ?thesis by linarith
qed

lemma plot_matrices_ok:
  assumes "heap s prec \<noteq> []" and "length (heap s prec) \<le> ncols (heap s prec)"
      and "registry s ''bwr'' = Some c"
      and "span_of (zero_diag (heap s prec)) = Inr spn"
  shows "plot_matrices cov prec title n s =
     (Inr (),
      s\<lparr>heap := (heap s)(prec := zero_diag (heap s prec)),
        figures := figures s @
          [\<lparr>image = ((heap s)(prec := zero_diag (heap s prec))) cov, vmin = - 1, vmax = 1,
            cmap = c, colorbar = True,
            fig_title = format_d n @ '' '' @ title @ '' / covariance''\<rparr>,
           \<lparr>image = zero_diag (heap s prec), vmin = - spn, vmax = spn,
            cmap = c, colorbar = True,
            fig_title = format_d n @ '' '' @ title @ '' / precision''\<rparr>]\<rparr>)"
  using assms by (simp add: plot_matrices_def Let_def get_cmap_def)


lemma plot_matrices_heap_other:
  "r \<noteq> prec \<Longrightarrow> heap (snd (plot_matrices cov prec title n s)) r = heap s r"
  by (simp add: plot_matrices_def Let_def split: sum.splits)

lemma square_ncols: "square M \<Longrightarrow> M \<noteq> [] \<Longrightarrow> ncols M = length M"
  by (cases M) (simp_all add: square_def ncols_def)

lemma negate_length [simp]: "length (negate M) = length M"
  by (simp add: negate_def)

lemma negate_square: "square M \<Longrightarrow> square (negate M)"
  by (auto simp: square_def negate_def)

lemma negate_nonempty: "M \<noteq> [] \<Longrightarrow> negate M \<noteq> []"
  by (simp add: negate_def)

lemma negate_entry:
  "i < length M \<Longrightarrow> j < length (M ! i) \<Longrightarrow> negate M ! i ! j = - (M ! i ! j)"
  by (simp add: negate_def)

lemma main_display_ok:
  assumes reg: "registry s ''bwr'' = Some c"
      and P: "heap s (est_precision est) = P" "P \<noteq> []" "square P"
      and cov: "est_covariance est \<noteq> next_ref s"
      and spn: "span_of (zero_diag (negate P)) = Inr spn"
  shows "main_display est s =
     (Inr (),
      s\<lparr>heap := (heap s)(next_ref s := zero_diag (negate P)),
        next_ref := Suc (next_ref s),
        figures := figures s @
          [\<lparr>image = heap s (est_covariance est), vmin = - 1, vmax = 1,
            cmap = c, colorbar = True,
            fig_title = format_d subject_n @ '' '' @
              (''Graph Lasso CV ('' @ format_3f (est_alpha est) @ '')'') @ '' / covariance''\<rparr>,
           \<lparr>image = zero_diag (negate P), vmin = - spn, vmax = spn,
            cmap = c, colorbar = True,
            fig_title = format_d subject_n @ '' '' @
              (''Graph Lasso CV ('' @ format_3f (est_alpha est) @ '')'') @ '' / precision''\<rparr>],
        shown := True\<rparr>)"
proof -
  let ?s1 = "s\<lparr>heap := (heap s)(next_ref s := negate P), next_ref := Suc (next_ref s)\<rparr>"
  have n: "neg_array (est_precision est) s = (next_ref s, ?s1)"
    by (simp add: neg_array_def P)
  have h: "heap ?s1 (next_ref s) = negate P" by simp
  have a1: "heap ?s1 (next_ref s) \<noteq> []" using P by (simp add: negate_nonempty)
  have a2: "length (heap ?s1 (next_ref s)) \<le> ncols (heap ?s1 (next_ref s))"
    using square_ncols [OF negate_square [OF P(3)] negate_nonempty [OF P(2)]] by simp
  have a3: "registry ?s1 ''bwr'' = Some c" using reg by simp
  have a4: "span_of (zero_diag (heap ?s1 (next_ref s))) = Inr spn" using spn by simp
  show ?thesis
    unfolding main_display_def n
    using cov by (simp add: plot_matrices_ok [OF a1 a2 a3 a4])
qed

lemma main_display_heap_old:
  "r \<noteq> next_ref s \<Longrightarrow> heap (snd (main_display est s)) r = heap s r"
proof -
  assume r: "r \<noteq> next_ref s"
  let ?s1 = "snd (neg_array (est_precision est) s)"
  let ?t = "''Graph Lasso CV ('' @ format_3f (est_alpha est) @ '')''"
  let ?res = "plot_matrices (est_covariance est) (next_ref s) ?t subject_n ?s1"
  have "heap (snd (main_display est s)) r = heap (snd ?res) r"
    by (cases ?res; cases "fst ?res") (auto simp: main_display_def neg_array_def)
  also have "\<dots> = heap ?s1 r" using r by (rule plot_matrices_heap_other)
  also have "\<dots> = heap s r" using r by (simp add: neg_array_def)
  finally show ?thesis .
qed

lemma square_le_ncols: "square M \<Longrightarrow> length M \<le> ncols M"
  by (cases M) (simp_all add: square_def ncols_def)






text \<open>
  C7: in the main flow the visualizer receives the covariance and the negated precision.
  For a non-empty square precision matrix \<open>P\<close> the call succeeds and draws two figures:
  the covariance with colour range \<open>[-1, 1]\<close>, and the array \<open>-P\<close> with its diagonal set
  to zero, with colour range \<open>[-span, span]\<close> where \<open>span\<close> is the larger of the absolute
  values of the least and the greatest entry of that diagonal-zeroed array, so that every
  displayed entry lies in the range. The zeroed entries stay in the temporary array: the
  estimator's own precision and covariance arrays hold their fitted values afterwards.
\<close>

theorem visualizer_symmetric_range:
  assumes "registry s ''bwr'' = Some c"
      and "heap s (est_precision est) = P" and "P \<noteq> []" and "square P"
      and "est_covariance est < next_ref s" and "est_precision est < next_ref s"
  shows "\<exists>spn f1 f2.
      fst (main_display est s) = Inr ()
    \<and> figures (snd (main_display est s)) = figures s @ [f1, f2]
    \<and> image f1 = heap s (est_covariance est) \<and> vmin f1 = - 1 \<and> vmax f1 = 1
    \<and> image f2 = zero_diag (negate P) \<and> vmin f2 = - spn \<and> vmax f2 = spn
    \<and> spn = max \<bar>Min (set (concat (zero_diag (negate P))))\<bar>
                \<bar>Max (set (concat (zero_diag (negate P))))\<bar>
    \<and> (\<forall>i < length P. \<forall>j < length P.
          image f2 ! i ! j = (if i = j then 0 else - (P ! i ! j)))
    \<and> (\<forall>e \<in> set (concat (image f2)). - spn \<le> e \<and> e \<le> spn)
    \<and> heap (snd (main_display est s)) (est_precision est) = P
    \<and> heap (snd (main_display est s)) (est_covariance est) = heap s (est_covariance est)"
proof -
  let ?Z = "zero_diag (negate P)"
  define spn where "spn = max \<bar>Min (set (concat ?Z))\<bar> \<bar>Max (set (concat ?Z))\<bar>"
  have ne: "concat ?Z \<noteq> []"
    using zero_diag_nonempty [of "negate P"] negate_nonempty [OF assms(3)]
      square_le_ncols [OF negate_square [OF assms(4)]] by simp
  have sp: "span_of ?Z = Inr spn"
    unfolding spn_def by (rule span_of_defined [OF ne])
  have cov: "est_covariance est \<noteq> next_ref s" using assms(5) by simp
  note run = main_display_ok [OF assms(1) assms(2) assms(3) assms(4) cov sp]
  have entry: "\<forall>i < length P. \<forall>j < length P.
      ?Z ! i ! j = (if i = j then 0 else - (P ! i ! j))"
  proof (intro allI impI)
    fix i j assume i: "i < length P" and j: "j < length P"
    from i assms(4) have len: "length (P ! i) = length P" by (simp add: square_def)
    have "?Z ! i ! j = (if i = j then 0 else negate P ! i ! j)"
      using i j len by (intro zero_diag_entry) (simp_all add: negate_def)
    also have "\<dots> = (if i = j then 0 else - (P ! i ! j))"
      using i j len by (simp add: negate_entry)
    finally show "?Z ! i ! j = (if i = j then 0 else - (P ! i ! j))" .
  qed
  have bounds: "\<forall>e \<in> set (concat ?Z). - spn \<le> e \<and> e \<le> spn"
    using span_of_bounds [OF sp] by blast
  have old: "heap (snd (main_display est s)) (est_precision est) = P"
    "heap (snd (main_display est s)) (est_covariance est) = heap s (est_covariance est)"
    using assms(2,5,6) by (simp_all add: main_display_heap_old)
  define f1 where "f1 = \<lparr>image = heap s (est_covariance est), vmin = - 1, vmax = 1,
      cmap = c, colorbar = True,
      fig_title = format_d subject_n @ '' '' @
        (''Graph Lasso CV ('' @ format_3f (est_alpha est) @ '')'') @ '' / covariance''\<rparr>"
  define f2 where "f2 = \<lparr>image = ?Z, vmin = - spn, vmax = spn,
      cmap = c, colorbar = True,
      fig_title = format_d subject_n @ '' '' @
        (''Graph Lasso CV ('' @ format_3f (est_alpha est) @ '')'') @ '' / precision''\<rparr>"
  have res: "fst (main_display est s) = Inr ()"
    "figures (snd (main_display est s)) = figures s @ [f1, f2]"
    by (simp_all add: run f1_def f2_def)
  have f1: "image f1 = heap s (est_covariance est)" "vmin f1 = - 1" "vmax f1 = 1"
    by (simp_all add: f1_def)
  have f2: "image f2 = ?Z" "vmin f2 = - spn" "vmax f2 = spn"
    by (simp_all add: f2_def)
  show ?thesis
    apply (rule exI [of _ spn], rule exI [of _ f1], rule exI [of _ f2])
    unfolding f2(1)
    using res f1 f2(2,3) spn_def entry bounds old
    apply (intro conjI)
    apply (rule refl | assumption)+
    done
qed

text \<open>The hypotheses of the theorem hold in the demonstration state.\<close>

theorem visualizer_symmetric_range_witness:
  "registry demo_state ''bwr'' = Some (from_list ''bwr'' bwr_data)
   \<and> heap demo_state (est_precision demo_estimator) = [[3, - 1], [- 1, 4]]
   \<and> [[3, - 1], [- 1, 4 :: real]] \<noteq> [] \<and> square [[3, - 1], [- 1, 4]]
   \<and> est_covariance demo_estimator < next_ref demo_state
   \<and> est_precision demo_estimator < next_ref demo_state
   \<and> (\<exists>spn f1 f2.
      fst (main_display demo_estimator demo_state) = Inr ()
    \<and> figures (snd (main_display demo_estimator demo_state)) = figures demo_state @ [f1, f2]
    \<and> image f1 = heap demo_state (est_covariance demo_estimator)
    \<and> vmin f1 = - 1 \<and> vmax f1 = 1
    \<and> image f2 = zero_diag (negate [[3, - 1], [- 1, 4]]) \<and> vmin f2 = - spn \<and> vmax f2 = spn
    \<and> spn = max \<bar>Min (set (concat (zero_diag (negate [[3, - 1], [- 1, 4]]))))\<bar>
                \<bar>Max (set (concat (zero_diag (negate [[3, - 1], [- 1, 4]]))))\<bar>
    \<and> (\<forall>i < length [[3, - 1], [- 1, 4 :: real]]. \<forall>j < length [[3, - 1], [- 1, 4 :: real]].
          image f2 ! i ! j = (if i = j then 0 else - ([[3, - 1], [- 1, 4]] ! i ! j)))
    \<and> (\<forall>e \<in> set (concat (image f2)). - spn \<le> e \<and> e \<le> spn)
    \<and> heap (snd (main_display demo_estimator demo_state)) (est_precision demo_estimator)
        = [[3, - 1], [- 1, 4]]
    \<and> heap (snd (main_display demo_estimator demo_state)) (est_covariance demo_estimator)
        = heap demo_state (est_covariance demo_estimator))"
proof -
  have h1: "registry demo_state ''bwr'' = Some (from_list ''bwr'' bwr_data)"
    by (simp add: demo_state_def module_import_def register_cmap_def from_list_def)
  have h2: "heap demo_state (est_precision demo_estimator) = [[3, - 1], [- 1, 4]]"
    by (simp add: demo_state_def demo_estimator_def module_import_def register_cmap_def)
  have h3: "[[3, - 1], [- 1, 4 :: real]] \<noteq> []" by simp
  have h4: "square [[3, - 1], [- 1, 4]]" by (simp add: square_def)
  have h5: "est_covariance demo_estimator < next_ref demo_state"
    by (simp add: demo_state_def demo_estimator_def module_import_def register_cmap_def)
  have h6: "est_precision demo_estimator < next_ref demo_state"
    by (simp add: demo_state_def demo_estimator_def module_import_def register_cmap_def)
  from h1 h2 h3 h4 h5 h6 visualizer_symmetric_range [OF h1 h2 h3 h4 h5 h6]
  show ?thesis by (intro conjI)
qed

section \<open>Frame properties of the visualizer\<close>




section \<open>The hardcoded scenario and the figure titles\<close>




section \<open>Properties of the region aggregation\<close>











lemma normalize_regions_length [simp]: "length (normalize_regions M) = length M"
  by (simp add: normalize_regions_def)


















section \<open>Properties of the confound estimator\<close>

lemma parse_line_numbers: "parse_line (map Num xs) = Inr xs"
  by (induction xs) simp_all

lemma parse_lines_numbers:
  assumes "\<forall>row \<in> set rows. length row = m" and "0 < m"
  shows "parse_lines (map (map Num) rows) = Inr rows"
  using assms
proof (induction rows)
  case Nil
  then show ?case by simp
next
  case (Cons row rows)
  then have ne: "row \<noteq> []" by auto
  from Cons have ih: "parse_lines (map (map Num) rows) = Inr rows" by simp
  have "rows \<noteq> [] \<Longrightarrow> length (hd rows) = length row"
    using Cons.prems(1) by (cases rows) simp_all
  with ne ih show ?case by (auto simp add: parse_line_numbers)
qed

lemma squeeze_two_dimensional:
  assumes "2 \<le> length rows" and "\<forall>row \<in> set rows. length row = m" and "2 \<le> m"
  shows "squeeze rows = Array2 rows"
proof -
  from assms(1) obtain r1 r2 rs where rows: "rows = r1 # r2 # rs"
    by (cases rows; cases "tl rows") auto
  have "\<not> list_all (\<lambda>row. length row = 1) rows"
    using assms(2,3) by (simp add: rows)
  then show ?thesis by (simp add: squeeze_def rows)
qed

lemma hstack_rows:
  "length a = length m \<Longrightarrow> hstack a (Array2 m) = Inr (map2 (@) a m)"
  by (simp add: hstack_def)

text \<open>
  C3, as stated, fails: a confound file with a header and two numeric rows of a single
  column is loaded as a one-dimensional array, and stacking it beside the two-row array
  of components raises ValueError instead of returning a matrix with two rows.
\<close>

theorem confounds_step_single_column_file:
  "confounds_step first_voxel [[1, 2], [3, 4]] demo_file_one_column = Inl ValueError"
  by (simp add: confounds_step_def loadtxt_def demo_file_one_column_def squeeze_def
      hstack_def first_voxel_def)

text \<open>
  C3, amended: for every functional volume with \<open>T \<ge> 2\<close> time points, every component
  function that returns one row per time point, and every confound file with one header
  line followed by \<open>T\<close> numeric rows of one common width of at least two columns, the
  confound estimator returns the horizontal concatenation of the components with the
  motion confounds, row by row, and the result has exactly \<open>T\<close> rows, whatever the
  number of components.
\<close>

theorem confounds_step_rows:
  assumes "length (high_variance_confounds vol) = length vol"
      and "confound_file = header # map (map Num) rows"
      and "length rows = length vol" and "2 \<le> length vol"
      and "\<forall>row \<in> set rows. length row = m" and "2 \<le> m"
  shows "\<exists>C. confounds_step high_variance_confounds vol confound_file = Inr C
      \<and> length C = length vol
      \<and> (\<forall>t < length vol. C ! t = high_variance_confounds vol ! t @ rows ! t)"
proof -
  have m0: "0 < m" using assms(6) by simp
  have l: "loadtxt confound_file 1 = Inr (Array2 rows)"
    using parse_lines_numbers [OF assms(5) m0] squeeze_two_dimensional [OF _ assms(5,6)]
      assms(3,4)
    by (simp add: loadtxt_def assms(2))
  have len: "length (high_variance_confounds vol) = length rows"
    using assms(1,3) by simp
  have c: "confounds_step high_variance_confounds vol confound_file
      = Inr (map2 (@) (high_variance_confounds vol) rows)"
    unfolding confounds_step_def Let_def l by (simp add: hstack_rows [OF len])
  show ?thesis
    using c len assms(3) by (intro exI [of _ "map2 (@) (high_variance_confounds vol) rows"]) simp
qed

text \<open>The hypotheses hold for a two-point volume and a two-column file.\<close>

theorem confounds_step_rows_witness:
  "length (first_voxel [[1, 2], [3, 4]]) = length [[1, 2], [3, 4 :: real]]
   \<and> demo_file = [Word ''x'', Word ''y''] # map (map Num) [[5, 6], [7, 8]]
   \<and> (\<exists>C. confounds_step first_voxel [[1, 2], [3, 4]] demo_file = Inr C
      \<and> length C = 2 \<and> C ! 0 = [1, 5, 6] \<and> C ! 1 = [3, 7, 8])"
proof -
  let ?vol = "[[1, 2], [3, 4 :: real]]" and ?rows = "[[5, 6], [7, 8 :: real]]"
  have h1: "length (first_voxel ?vol) = length ?vol" by (simp add: first_voxel_def)
  have h2: "demo_file = [Word ''x'', Word ''y''] # map (map Num) ?rows"
    by (simp add: demo_file_def)
  have h3: "length ?rows = length ?vol" by simp
  have h4: "2 \<le> length ?vol" by simp
  have h5: "\<forall>row \<in> set ?rows. length row = 2" by simp
  have h6: "(2::nat) \<le> 2" by simp
  from confounds_step_rows [of first_voxel ?vol demo_file "[Word ''x'', Word ''y'']" ?rows 2,
      OF h1 h2 h3 h4 h5 h6]
  obtain C where c: "confounds_step first_voxel ?vol demo_file = Inr C" "length C = length ?vol"
    "\<forall>t < length ?vol. C ! t = first_voxel ?vol ! t @ ?rows ! t"
    by blast
  have "(0::nat) < length ?vol" "(1::nat) < length ?vol" by simp_all
  with c(3) have "C ! 0 = first_voxel ?vol ! 0 @ ?rows ! 0" "C ! 1 = first_voxel ?vol ! 1 @ ?rows ! 1"
    by blast+
  then have "C ! 0 = [1, 5, 6]" "C ! 1 = [3, 7, 8]" by (simp_all add: first_voxel_def)
  with c(1,2) h1 h2 show ?thesis by auto
qed

section \<open>Properties of the signal cleaner\<close>

lemma clean_main_call:
  "clean ops (main_clean_call X C) =
     (standardize_op ops
        (filter_op ops None (Some (1 / 100)) (5 / 2) (regress_op ops C (detrend_op ops X))),
      [Detrend, ConfoundRegression, TemporalFiltering, Standardization])"
  by (simp add: clean_def main_clean_call_def apply_stage_def)

text \<open>
  C4: the script calls the cleaner on the masked matrix with no low-pass cutoff, detrend
  enabled, standardize enabled, the confound matrix, repetition time 2.5 and high-pass
  cutoff 0.01. With these arguments the cleaner applies detrend, confound regression,
  temporal filtering and standardization, in this order, and, each operation keeping the
  shape of its input, the cleaned matrix has the shape of the input.
\<close>

theorem clean_call_order_and_shape:
  assumes "\<And>X. same_shape (detrend_op ops X) X"
      and "\<And>cf X. same_shape (regress_op ops cf X) X"
      and "\<And>lo hi tr X. same_shape (filter_op ops lo hi tr X) X"
      and "\<And>X. same_shape (standardize_op ops X) X"
  shows "main_clean_call fmri_masked confounds_matrix =
       \<lparr>signals = fmri_masked, low_pass = None, detrend = True, standardize = True,
        clean_confounds = Some confounds_matrix, t_r = 5 / 2, high_pass = Some (1 / 100)\<rparr>
    \<and> snd (clean ops (main_clean_call fmri_masked confounds_matrix))
        = [Detrend, ConfoundRegression, TemporalFiltering, Standardization]
    \<and> fst (clean ops (main_clean_call fmri_masked confounds_matrix))
        = standardize_op ops
            (filter_op ops None (Some (1 / 100)) (5 / 2)
               (regress_op ops confounds_matrix (detrend_op ops fmri_masked)))
    \<and> same_shape (fst (clean ops (main_clean_call fmri_masked confounds_matrix))) fmri_masked"
proof -
  let ?d = "detrend_op ops fmri_masked"
  let ?r = "regress_op ops confounds_matrix ?d"
  let ?f = "filter_op ops None (Some (1 / 100)) (5 / 2) ?r"
  have "same_shape (standardize_op ops ?f) fmri_masked"
    using assms(4) [of ?f] assms(3) [of None "Some (1 / 100)" "5 / 2" ?r]
      assms(2) [of confounds_matrix ?d] assms(1) [of fmri_masked]
    by (simp add: same_shape_def)
  then show ?thesis
    by (simp add: clean_main_call) (simp add: main_clean_call_def)
qed

text \<open>The hypotheses hold for four simple entry-wise operations.\<close>

theorem clean_call_order_and_shape_witness:
  "snd (clean demo_ops (main_clean_call [[1, 2], [3, 4]] [[0], [0]]))
     = [Detrend, ConfoundRegression, TemporalFiltering, Standardization]
   \<and> fst (clean demo_ops (main_clean_call [[1, 2], [3, 4]] [[0], [0]]))
     = [[5 / 4, 9 / 4], [13 / 4, 17 / 4]]
   \<and> same_shape (fst (clean demo_ops (main_clean_call [[1, 2], [3, 4]] [[0], [0]])))
        [[1, 2], [3, 4]]"
proof -
  have h1: "\<And>X. same_shape (detrend_op demo_ops X) X"
    and h2: "\<And>cf X. same_shape (regress_op demo_ops cf X) X"
    and h3: "\<And>lo hi tr X. same_shape (filter_op demo_ops lo hi tr X) X"
    and h4: "\<And>X. same_shape (standardize_op demo_ops X) X"
    by (simp_all add: demo_ops_def same_shape_def)
  note t = clean_call_order_and_shape [of demo_ops "[[1, 2], [3, 4]]" "[[0], [0]]",
      OF h1 h2 h3 h4]
  have v: "standardize_op demo_ops
            (filter_op demo_ops None (Some (1 / 100)) (5 / 2)
               (regress_op demo_ops [[0], [0]] (detrend_op demo_ops [[1, 2], [3, 4]])))
        = [[5 / 4, 9 / 4], [13 / 4, 17 / 4]]"
    by (simp add: demo_ops_def)
  from t have a: "snd (clean demo_ops (main_clean_call [[1, 2], [3, 4]] [[0], [0]]))
      = [Detrend, ConfoundRegression, TemporalFiltering, Standardization]"
    and b: "fst (clean demo_ops (main_clean_call [[1, 2], [3, 4]] [[0], [0]]))
      = standardize_op demo_ops
            (filter_op demo_ops None (Some (1 / 100)) (5 / 2)
               (regress_op demo_ops [[0], [0]] (detrend_op demo_ops [[1, 2], [3, 4]])))"
    and c: "same_shape (fst (clean demo_ops (main_clean_call [[1, 2], [3, 4]] [[0], [0]])))
        [[1, 2], [3, 4]]"
    by blast+
  from b v have b': "fst (clean demo_ops (main_clean_call [[1, 2], [3, 4]] [[0], [0]]))
      = [[5 / 4, 9 / 4], [13 / 4, 17 / 4]]"
    by (rule trans)
  from a b' c show ?thesis by (intro conjI)
qed

end
